theory Spec2Isabelle
  imports Complex_Main "HOL-Library.Char_ord" "HOL-Library.List_Lexorder"
    "HOL-Library.Product_Lexorder" "HOL-Library.Multiset"
begin

section \<open>Data model of \<open>app.py\<close>\<close>

text \<open>
  The script keeps three pandas tables. A row of a table is a record whose fields are the
  columns. Text cells are strings, and text is ordered as Python orders it (character by
  character, by code). Numbers that pandas holds as floats are modelled as reals; the one
  non-number a float column of this script can hold, NaN, is \<open>None\<close>. NaN arises in two
  places of the script: the mean of an empty column, and the cell a left join leaves
  unmatched. The cells read from the three files are taken as present and of the column's
  kind.

  A \<open>datetime64\<close> value is its number of nanoseconds since the epoch, a
  \<open>datetime.date\<close> its number of days since the epoch.
\<close>

type_synonym timestamp = int
type_synonym date = int

record by_student =
  Student :: string

record keyed = by_student +
  Subject :: string

record attendance_row = keyed +
  Date :: timestamp
  Status :: string

record marks_row = keyed +
  Marks :: real

record event_row =
  Event :: string
  Event_Date :: timestamp
  Event_Subject :: string

text \<open>The derived tables: the attendance summary (columns Student, Subject,
  \<open>Attendance %\<close>), the average marks (columns Student, Marks), and the merge of marks with
  the summary (columns Student, Subject, Marks, \<open>Attendance %\<close>).\<close>

record summary_row = keyed +
  Attendance_pct :: "real option"

record avg_row = by_student +
  Marks_mean :: "real option"

record merged_row = marks_row +
  Attendance_pct_merged :: "real option"

subsection \<open>Constants\<close>

definition LOW_ATTENDANCE_THRESHOLD :: real where
  "LOW_ATTENDANCE_THRESHOLD = 75"

definition FAILING_MARK_THRESHOLD :: real where
  "FAILING_MARK_THRESHOLD = 40"

definition ALL_STUDENTS :: string where
  "ALL_STUDENTS = ''All Students''"

definition ALL_SUBJECTS :: string where
  "ALL_SUBJECTS = ''All Subjects''"

subsection \<open>The pandas operations the script uses\<close>

text \<open>\<open>Series.mean\<close> of a boolean column: the share of \<open>True\<close>; NaN when the column is
  empty.\<close>

definition mean_bool :: "bool list \<Rightarrow> real option" where
  "mean_bool xs =
     (if xs = [] then None
      else Some (real (length (filter (\<lambda>b. b) xs)) / real (length xs)))"

text \<open>\<open>Series.mean\<close> of a numeric column.\<close>

definition mean_num :: "real list \<Rightarrow> real option" where
  "mean_num xs = (if xs = [] then None else Some (sum_list xs / real (length xs)))"

text \<open>Arithmetic and comparison on a float that may be NaN: NaN propagates through
  arithmetic, and every comparison with NaN is false.\<close>

definition nan_times :: "real option \<Rightarrow> real \<Rightarrow> real option" where
  "nan_times x c = map_option (\<lambda>v. v * c) x"

definition nan_rsub :: "real \<Rightarrow> real option \<Rightarrow> real option" where
  "nan_rsub c x = map_option (\<lambda>v. c - v) x"

fun nan_less :: "real option \<Rightarrow> real \<Rightarrow> bool" where
  "nan_less None t = False"
| "nan_less (Some v) t = (v < t)"

text \<open>\<open>df[df[col].isin(values)]\<close> on the two key columns.\<close>

definition isin_Student :: "'a keyed_scheme list \<Rightarrow> string list \<Rightarrow> 'a keyed_scheme list" where
  "isin_Student df vs = filter (\<lambda>r. Student r \<in> set vs) df"

definition isin_Subject :: "'a keyed_scheme list \<Rightarrow> string list \<Rightarrow> 'a keyed_scheme list" where
  "isin_Subject df vs = filter (\<lambda>r. Subject r \<in> set vs) df"

text \<open>Lines 81-85 and, with the marks table, lines 132-136: the two filter steps.\<close>

definition apply_filters ::
  "'a keyed_scheme list \<Rightarrow> string list \<Rightarrow> string list \<Rightarrow> 'a keyed_scheme list" where
  "apply_filters df selected_students selected_subjects =
     (let d1 = (if ALL_STUDENTS \<notin> set selected_students
                then isin_Student df selected_students else df);
          d2 = (if ALL_SUBJECTS \<notin> set selected_subjects
                then isin_Subject d1 selected_subjects else d1)
      in d2)"

text \<open>\<open>groupby(["Student", "Subject"])\<close>: the keys observed in the table, each once, in
  ascending order; the group of a key is the rows that carry it, in table order.\<close>

definition key_of :: "'a keyed_scheme \<Rightarrow> string \<times> string" where
  "key_of r = (Student r, Subject r)"

definition group_keys :: "'a keyed_scheme list \<Rightarrow> (string \<times> string) list" where
  "group_keys df = sort (remdups (map key_of df))"

definition group_of :: "'a keyed_scheme list \<Rightarrow> string \<times> string \<Rightarrow> 'a keyed_scheme list" where
  "group_of df k = filter (\<lambda>r. key_of r = k) df"

text \<open>Lines 91-95 and 177-181: the attendance percentage of every group,
  \<open>(x == "Present").mean() * 100\<close>.\<close>

definition present_pct :: "attendance_row list \<Rightarrow> real option" where
  "present_pct g = nan_times (mean_bool (map (\<lambda>r. Status r = ''Present'') g)) 100"

definition attendance_summary_of :: "attendance_row list \<Rightarrow> summary_row list" where
  "attendance_summary_of df =
     map (\<lambda>k. \<lparr>Student = fst k, Subject = snd k,
               Attendance_pct = present_pct (group_of df k)\<rparr>) (group_keys df)"

text \<open>Line 148: \<open>groupby("Student")["Marks"].mean().reset_index()\<close>.\<close>

definition avg_marks_of :: "marks_row list \<Rightarrow> avg_row list" where
  "avg_marks_of df =
     map (\<lambda>st. \<lparr>Student = st,
                Marks_mean = mean_num (map Marks (filter (\<lambda>r. Student r = st) df))\<rparr>)
       (sort (remdups (map Student df)))"

text \<open>Lines 184-185: \<open>pd.merge(left, right, on=["Student", "Subject"], how="left")\<close>.
  Every left row is kept, in order: once per right row with the same key, or once with a
  NaN percentage when no right row has its key.\<close>

definition merged_with :: "marks_row \<Rightarrow> real option \<Rightarrow> merged_row" where
  "merged_with m p =
     \<lparr>Student = Student m, Subject = Subject m, Marks = Marks m, Attendance_pct_merged = p\<rparr>"

definition merge_left :: "marks_row list \<Rightarrow> summary_row list \<Rightarrow> merged_row list" where
  "merge_left left right =
     concat (map (\<lambda>m. case filter (\<lambda>a. key_of a = key_of m) right of
                         [] \<Rightarrow> [merged_with m None]
                       | a # as \<Rightarrow> map (\<lambda>a'. merged_with m (Attendance_pct a')) (a # as))
                 left)"

text \<open>\<open>Series.dt.date\<close>: the calendar day of a timestamp.\<close>

definition ns_per_day :: int where
  "ns_per_day = 86400000000000"

definition dt_date :: "timestamp \<Rightarrow> date" where
  "dt_date t = t div ns_per_day"

text \<open>\<open>sort_values("Date")\<close>: ascending by the timestamp. Rows with equal timestamps are
  kept here in table order; the script's default sort kind does not promise an order among
  them, and nothing below depends on it.\<close>

definition sort_values_Date :: "event_row list \<Rightarrow> event_row list" where
  "sort_values_Date df = sort_key Event_Date df"

section \<open>What the page shows\<close>

text \<open>The calls into the presentation layer, in the order the script makes them, with the
  data each receives. The pictographs of the labels are spelled as their UTF-8 bytes.\<close>

datatype table =
  Attendance_tbl "attendance_row list"
| Summary_tbl "summary_row list"
| Marks_tbl "marks_row list"
| Merged_tbl "merged_row list"
| Events_tbl "event_row list"

datatype figure =
  Px_bar_attendance "summary_row list"
| Px_pie "(string \<times> real option) list"
| Px_bar_marks "avg_row list"
| Px_box "marks_row list"
| Px_scatter "merged_row list"

datatype ui =
  St_header string
| St_subheader string
| St_dataframe table
| St_plotly_chart figure
| St_warning string
| St_success string

definition warning_sign :: string where
  "warning_sign = [CHR 0xE2, CHR 0x9A, CHR 0xA0, CHR 0xEF, CHR 0xB8, CHR 0x8F]"

definition check_mark :: string where
  "check_mark = [CHR 0xE2, CHR 0x9C, CHR 0x85]"

definition blue_book :: string where
  "blue_book = [CHR 0xF0, CHR 0x9F, CHR 0x93, CHR 0x98]"

definition memo :: string where
  "memo = [CHR 0xF0, CHR 0x9F, CHR 0x93, CHR 0x9D]"

definition calendar :: string where
  "calendar = [CHR 0xF0, CHR 0x9F, CHR 0x93, CHR 0x85]"

definition police_light :: string where
  "police_light = [CHR 0xF0, CHR 0x9F, CHR 0x9A, CHR 0xA8]"

text \<open>Lines 121-123, 143-145, 192-207 and 220-222: what each alert shows, from its table.\<close>

definition low_attendance_section :: "summary_row list \<Rightarrow> ui list" where
  "low_attendance_section low =
     (if low \<noteq> []
      then [St_warning (warning_sign @ '' Students with attendance below 75%:''),
            St_dataframe (Summary_tbl low)]
      else [])"

definition failing_section :: "marks_row list \<Rightarrow> ui list" where
  "failing_section failing =
     (if failing \<noteq> []
      then [St_warning (warning_sign @ '' Students scoring below 40:''),
            St_dataframe (Marks_tbl failing)]
      else [])"

definition special_attention_section :: "merged_row list \<Rightarrow> merged_row list \<Rightarrow> ui list" where
  "special_attention_section special merged =
     (if special \<noteq> []
      then [St_warning (warning_sign @
              '' These students need special attention (low marks & low attendance):''),
            St_dataframe (Merged_tbl special),
            St_plotly_chart (Px_scatter merged)]
      else [St_success (check_mark @
              '' No students currently flagged for special attention.'')])"

definition near_deadline_section :: "event_row list \<Rightarrow> ui list" where
  "near_deadline_section near =
     (if near \<noteq> []
      then [St_warning (warning_sign @ '' Deadlines within 7 days:''),
            St_dataframe (Events_tbl near)]
      else [])"

section \<open>The script as a state transformer\<close>

text \<open>The variables of the script. The first eight are set before the tabs run: the three
  loaded tables, the current day and the four sidebar selections. The others are assigned
  by the tabs; \<open>out\<close> collects what is shown.\<close>

record env =
  attendance_df :: "attendance_row list"
  marks_df :: "marks_row list"
  events_df :: "event_row list"
  today :: date
  selected_students_attendance :: "string list"
  selected_subjects_attendance :: "string list"
  selected_students_marks :: "string list"
  selected_subjects_marks :: "string list"
  filtered_df :: "attendance_row list"
  attendance_summary :: "summary_row list"
  present_ratio :: "real option"
  pie_data :: "(string \<times> real option) list"
  low_attendance :: "summary_row list"
  filtered_marks_df :: "marks_row list"
  failing_students :: "marks_row list"
  avg_marks :: "avg_row list"
  merged_df :: "merged_row list"
  special_attention :: "merged_row list"
  upcoming :: "event_row list"
  near_deadline :: "event_row list"
  out :: "ui list"

text \<open>Lines 77-123.\<close>

definition tab1 :: "env \<Rightarrow> env" where
  "tab1 s =
     (let filtered = apply_filters (attendance_df s)
                       (selected_students_attendance s) (selected_subjects_attendance s);
          summary = attendance_summary_of filtered;
          ratio = present_pct filtered;
          pie = [(''Present'', ratio), (''Absent'', nan_rsub 100 ratio)];
          low = filter (\<lambda>r. nan_less (Attendance_pct r) LOW_ATTENDANCE_THRESHOLD) summary
      in s\<lparr>filtered_df := filtered,
            attendance_summary := summary,
            present_ratio := ratio,
            pie_data := pie,
            low_attendance := low,
            out := out s @
              [St_header (blue_book @ '' Attendance Overview''),
               St_subheader ''Filtered Attendance Data'',
               St_dataframe (Attendance_tbl filtered),
               St_subheader ''Attendance % by Student and Subject'',
               St_plotly_chart (Px_bar_attendance summary),
               St_subheader ''Overall Attendance Distribution'',
               St_plotly_chart (Px_pie pie)] @
              low_attendance_section low\<rparr>)"

text \<open>Lines 128-207. The name \<open>attendance_summary\<close> is assigned again, from the whole
  attendance table.\<close>

definition marks_overview :: "marks_row list \<Rightarrow> marks_row list \<Rightarrow> avg_row list \<Rightarrow> ui list" where
  "marks_overview filtered failing avg =
     [St_header (memo @ '' Marks Overview''),
      St_subheader ''Marks Data'',
      St_dataframe (Marks_tbl filtered)] @
     failing_section failing @
     [St_subheader ''Average Marks per Student'',
      St_plotly_chart (Px_bar_marks avg),
      St_subheader ''Subject-wise Marks Distribution'',
      St_plotly_chart (Px_box filtered),
      St_subheader (police_light @ '' Students Needing Special Attention'')]"

definition tab2 :: "env \<Rightarrow> env" where
  "tab2 s =
     (let filtered = apply_filters (marks_df s)
                       (selected_students_marks s) (selected_subjects_marks s);
          failing = filter (\<lambda>r. Marks r < FAILING_MARK_THRESHOLD) filtered;
          avg = avg_marks_of filtered;
          summary = attendance_summary_of (attendance_df s);
          merged = merge_left filtered summary;
          special = filter (\<lambda>r. Marks r < FAILING_MARK_THRESHOLD \<and>
                       nan_less (Attendance_pct_merged r) LOW_ATTENDANCE_THRESHOLD) merged
      in s\<lparr>filtered_marks_df := filtered,
            failing_students := failing,
            avg_marks := avg,
            attendance_summary := summary,
            merged_df := merged,
            special_attention := special,
            out := out s @ marks_overview filtered failing avg @
                   special_attention_section special merged\<rparr>)"

text \<open>Lines 212-222.\<close>

definition tab3 :: "env \<Rightarrow> env" where
  "tab3 s =
     (let up = sort_values_Date
                 (filter (\<lambda>e. today s \<le> dt_date (Event_Date e)) (events_df s));
          near = filter (\<lambda>e. dt_date (Event_Date e) \<le> today s + 7) up
      in s\<lparr>upcoming := up,
            near_deadline := near,
            out := out s @
              [St_header (calendar @ '' Upcoming Exams & Assignments''),
               St_dataframe (Events_tbl up)] @
              near_deadline_section near\<rparr>)"

text \<open>One run of the page: the three tabs in order.\<close>

definition dashboard :: "env \<Rightarrow> env" where
  "dashboard s = tab3 (tab2 (tab1 s))"

section \<open>Sample tables\<close>

text \<open>A small instance of the three tables and of the page state, used to run the
  definitions.\<close>

definition sample_attendance :: "attendance_row list" where
  "sample_attendance =
     [\<lparr>Student = ''A'', Subject = ''Math'', Date = 19723 * ns_per_day, Status = ''Present''\<rparr>,
      \<lparr>Student = ''A'', Subject = ''Math'', Date = 19724 * ns_per_day, Status = ''Absent''\<rparr>,
      \<lparr>Student = ''B'', Subject = ''Math'', Date = 19723 * ns_per_day, Status = ''Present''\<rparr>,
      \<lparr>Student = ''B'', Subject = ''Art'', Date = 19723 * ns_per_day, Status = ''Absent''\<rparr>,
      \<lparr>Student = ''D'', Subject = ''Art'', Date = 19723 * ns_per_day, Status = ''Present''\<rparr>,
      \<lparr>Student = ''D'', Subject = ''Art'', Date = 19724 * ns_per_day, Status = ''Late''\<rparr>,
      \<lparr>Student = ''D'', Subject = ''Art'', Date = 19725 * ns_per_day, Status = ''Present''\<rparr>,
      \<lparr>Student = ''D'', Subject = ''Art'', Date = 19726 * ns_per_day, Status = ''Present''\<rparr>]"

definition sample_marks :: "marks_row list" where
  "sample_marks =
     [\<lparr>Student = ''A'', Subject = ''Math'', Marks = 30\<rparr>,
      \<lparr>Student = ''B'', Subject = ''Math'', Marks = 90\<rparr>,
      \<lparr>Student = ''C'', Subject = ''Math'', Marks = 10\<rparr>,
      \<lparr>Student = ''B'', Subject = ''Art'', Marks = 40\<rparr>,
      \<lparr>Student = ''D'', Subject = ''Art'', Marks = 35\<rparr>]"

definition sample_events :: "event_row list" where
  "sample_events =
     [\<lparr>Event = ''Final'', Event_Date = 19810 * ns_per_day, Event_Subject = ''Math''\<rparr>,
      \<lparr>Event = ''Quiz'', Event_Date = 19803 * ns_per_day + 32400000000000,
       Event_Subject = ''Math''\<rparr>,
      \<lparr>Event = ''Old'', Event_Date = 19799 * ns_per_day, Event_Subject = ''Art''\<rparr>,
      \<lparr>Event = ''Essay'', Event_Date = 19807 * ns_per_day + 82800000000000,
       Event_Subject = ''Art''\<rparr>,
      \<lparr>Event = ''Lab'', Event_Date = 19800 * ns_per_day, Event_Subject = ''Math''\<rparr>]"

definition sample_env :: env where
  "sample_env =
     \<lparr>attendance_df = sample_attendance, marks_df = sample_marks, events_df = sample_events,
      today = 19800,
      selected_students_attendance = [''All Students''],
      selected_subjects_attendance = [''All Subjects''],
      selected_students_marks = [''All Students''],
      selected_subjects_marks = [''All Subjects''],
      filtered_df = [], attendance_summary = [], present_ratio = None, pie_data = [],
      low_attendance = [], filtered_marks_df = [], failing_students = [], avg_marks = [],
      merged_df = [], special_attention = [], upcoming = [], near_deadline = [], out = []\<rparr>"

text \<open>A marks table in which a student is named like the sentinel of the student filter.\<close>

definition sample_collision :: "marks_row list" where
  "sample_collision =
     [\<lparr>Student = ''All Students'', Subject = ''Math'', Marks = 55\<rparr>,
      \<lparr>Student = ''Bob'', Subject = ''Math'', Marks = 65\<rparr>]"

section \<open>Properties of the operations\<close>

lemma apply_filters_eq_filter:
  "apply_filters df ss sj =
     filter (\<lambda>r. (ALL_STUDENTS \<in> set ss \<or> Student r \<in> set ss) \<and>
                 (ALL_SUBJECTS \<in> set sj \<or> Subject r \<in> set sj)) df"
  by (simp add: apply_filters_def isin_Student_def isin_Subject_def Let_def)

lemma apply_filters_idem:
  "apply_filters (apply_filters df ss sj) ss sj = apply_filters df ss sj"
  by (simp add: apply_filters_eq_filter)

lemma apply_filters_all:
  "ALL_STUDENTS \<in> set ss \<Longrightarrow> ALL_SUBJECTS \<in> set sj \<Longrightarrow> apply_filters df ss sj = df"
  by (simp add: apply_filters_eq_filter)

lemma set_group_keys: "set (group_keys df) = key_of ` set df"
  by (simp add: group_keys_def)

lemma distinct_group_keys: "distinct (group_keys df)"
  by (simp add: group_keys_def)

lemma map_key_of_summary: "map key_of (attendance_summary_of df) = group_keys df"
  by (simp add: attendance_summary_of_def key_of_def o_def)

lemma group_of_nonempty: "k \<in> key_of ` set df \<Longrightarrow> group_of df k \<noteq> []"
  by (auto simp: group_of_def filter_empty_conv)

lemma group_of_explicit:
  "group_of df (key_of r) = filter (\<lambda>a. Student a = Student r \<and> Subject a = Subject r) df"
  by (simp add: group_of_def key_of_def)

lemma length_filter_map_id:
  "length (filter ((\<lambda>b. b) \<circ> f) xs) = length (filter f xs)"
  by (simp add: o_def)

lemma present_pct_Some:
  "g \<noteq> [] \<Longrightarrow>
   present_pct g =
     Some (real (length (filter (\<lambda>r. Status r = ''Present'') g)) / real (length g) * 100)"
  by (simp add: present_pct_def mean_bool_def nan_times_def length_filter_map_id)

lemma present_pct_Nil: "present_pct [] = None"
  by (simp add: present_pct_def mean_bool_def nan_times_def)

lemma length_filter_full: "length (filter P xs) = length xs \<longleftrightarrow> (\<forall>x\<in>set xs. P x)"
proof (induction xs)
  case Nil
  show ?case by simp
next
  case (Cons x xs)
  have "length (filter P xs) \<le> length xs" by (rule length_filter_le)
  then have "length (filter P xs) \<noteq> Suc (length xs)" by arith
  with Cons show ?case by simp
qed

lemma share_bounds:
  fixes c n :: nat
  assumes "c \<le> n" and "0 < n"
  shows "0 \<le> real c / real n * 100" and "real c / real n * 100 \<le> 100"
    and "real c / real n * 100 = 100 \<longleftrightarrow> c = n"
    and "real c / real n * 100 = 0 \<longleftrightarrow> c = 0"
  using assms by (simp_all add: field_simps)

lemma summary_row_pct:
  assumes "r \<in> set (attendance_summary_of df)"
  shows "key_of r \<in> key_of ` set df"
    and "Attendance_pct r = present_pct (group_of df (key_of r))"
proof -
  from assms obtain k where k: "k \<in> set (group_keys df)"
    and r: "r = \<lparr>Student = fst k, Subject = snd k, Attendance_pct = present_pct (group_of df k)\<rparr>"
    by (auto simp: attendance_summary_of_def)
  from r have kr: "key_of r = k" by (simp add: key_of_def)
  from k kr show "key_of r \<in> key_of ` set df" by (simp add: set_group_keys)
  from r kr show "Attendance_pct r = present_pct (group_of df (key_of r))" by simp
qed

lemma sample_summary:
  "attendance_summary_of sample_attendance =
     [\<lparr>Student = ''A'', Subject = ''Math'', Attendance_pct = Some 50\<rparr>,
      \<lparr>Student = ''B'', Subject = ''Art'', Attendance_pct = Some 0\<rparr>,
      \<lparr>Student = ''B'', Subject = ''Math'', Attendance_pct = Some 100\<rparr>,
      \<lparr>Student = ''D'', Subject = ''Art'', Attendance_pct = Some 75\<rparr>]"
  by (simp add: attendance_summary_of_def sample_attendance_def group_keys_def key_of_def
      group_of_def present_pct_def mean_bool_def nan_times_def)

lemma tab1_fields:
  "filtered_df (tab1 s) = apply_filters (attendance_df s)
     (selected_students_attendance s) (selected_subjects_attendance s)"
  "attendance_summary (tab1 s) = attendance_summary_of (filtered_df (tab1 s))"
  "present_ratio (tab1 s) = present_pct (filtered_df (tab1 s))"
  "pie_data (tab1 s) =
     [(''Present'', present_ratio (tab1 s)), (''Absent'', nan_rsub 100 (present_ratio (tab1 s)))]"
  "low_attendance (tab1 s) =
     filter (\<lambda>r. nan_less (Attendance_pct r) LOW_ATTENDANCE_THRESHOLD) (attendance_summary (tab1 s))"
  "out (tab1 s) = out s @
     [St_header (blue_book @ '' Attendance Overview''),
      St_subheader ''Filtered Attendance Data'',
      St_dataframe (Attendance_tbl (filtered_df (tab1 s))),
      St_subheader ''Attendance % by Student and Subject'',
      St_plotly_chart (Px_bar_attendance (attendance_summary (tab1 s))),
      St_subheader ''Overall Attendance Distribution'',
      St_plotly_chart (Px_pie (pie_data (tab1 s)))] @
     low_attendance_section (low_attendance (tab1 s))"
  by (simp_all add: tab1_def Let_def)

lemma tab1_frame:
  "attendance_df (tab1 s) = attendance_df s"
  "marks_df (tab1 s) = marks_df s"
  "events_df (tab1 s) = events_df s"
  "today (tab1 s) = today s"
  "selected_students_marks (tab1 s) = selected_students_marks s"
  "selected_subjects_marks (tab1 s) = selected_subjects_marks s"
  by (simp_all add: tab1_def Let_def)

lemma tab2_fields:
  "filtered_marks_df (tab2 s) = apply_filters (marks_df s)
     (selected_students_marks s) (selected_subjects_marks s)"
  "failing_students (tab2 s) =
     filter (\<lambda>r. Marks r < FAILING_MARK_THRESHOLD) (filtered_marks_df (tab2 s))"
  "avg_marks (tab2 s) = avg_marks_of (filtered_marks_df (tab2 s))"
  "attendance_summary (tab2 s) = attendance_summary_of (attendance_df s)"
  "merged_df (tab2 s) = merge_left (filtered_marks_df (tab2 s)) (attendance_summary (tab2 s))"
  "special_attention (tab2 s) =
     filter (\<lambda>r. Marks r < FAILING_MARK_THRESHOLD \<and>
                 nan_less (Attendance_pct_merged r) LOW_ATTENDANCE_THRESHOLD) (merged_df (tab2 s))"
  "out (tab2 s) = out s @
     marks_overview (filtered_marks_df (tab2 s)) (failing_students (tab2 s)) (avg_marks (tab2 s)) @
     special_attention_section (special_attention (tab2 s)) (merged_df (tab2 s))"
  by (simp_all add: tab2_def Let_def)

lemma tab3_fields:
  "upcoming (tab3 s) =
     sort_values_Date (filter (\<lambda>e. today s \<le> dt_date (Event_Date e)) (events_df s))"
  "near_deadline (tab3 s) =
     filter (\<lambda>e. dt_date (Event_Date e) \<le> today s + 7) (upcoming (tab3 s))"
  "out (tab3 s) = out s @
     [St_header (calendar @ '' Upcoming Exams & Assignments''),
      St_dataframe (Events_tbl (upcoming (tab3 s)))] @
     near_deadline_section (near_deadline (tab3 s))"
  "special_attention (tab3 s) = special_attention s"
  "merged_df (tab3 s) = merged_df s"
  "attendance_summary (tab3 s) = attendance_summary s"
  by (simp_all add: tab3_def Let_def)

lemma nan_less_iff: "nan_less x t \<longleftrightarrow> (\<exists>p. x = Some p \<and> p < t)"
  by (cases x) simp_all

text \<open>A key column with distinct keys holds at most one row for a key.\<close>

lemma filter_key_distinct:
  "distinct (map f xs) \<Longrightarrow>
   filter (\<lambda>a. f a = k) xs = (case find (\<lambda>a. f a = k) xs of None \<Rightarrow> [] | Some a \<Rightarrow> [a])"
proof (induction xs)
  case Nil
  show ?case by simp
next
  case (Cons x xs)
  show ?case
  proof (cases "f x = k")
    case True
    with Cons.prems have "k \<notin> f ` set xs" by simp
    then have "filter (\<lambda>a. f a = k) xs = []" by (auto simp: filter_empty_conv)
    with True show ?thesis by simp
  next
    case False
    with Cons show ?thesis by simp
  qed
qed

lemma merge_left_distinct:
  assumes "distinct (map key_of right)"
  shows "merge_left left right =
     map (\<lambda>m. merged_with m (case find (\<lambda>a. key_of a = key_of m) right of
                                None \<Rightarrow> None | Some a \<Rightarrow> Attendance_pct a)) left"
proof -
  have "(case filter (\<lambda>a. key_of a = key_of m) right of
           [] \<Rightarrow> [merged_with m None]
         | a # as \<Rightarrow> map (\<lambda>a'. merged_with m (Attendance_pct a')) (a # as)) =
        [merged_with m (case find (\<lambda>a. key_of a = key_of m) right of
                          None \<Rightarrow> None | Some a \<Rightarrow> Attendance_pct a)]" for m
    by (simp add: filter_key_distinct [OF assms] split: option.split)
  then show ?thesis
    by (simp add: merge_left_def concat_map_singleton)
qed

lemma find_key_unique:
  assumes "distinct (map f xs)" and "a \<in> set xs" and "f a = k"
  shows "find (\<lambda>a. f a = k) xs = Some a"
  using assms by (induction xs) (auto simp: rev_image_eqI)

lemma find_key_None: "(\<forall>a \<in> set xs. f a \<noteq> k) \<Longrightarrow> find (\<lambda>a. f a = k) xs = None"
  by (simp add: find_None_iff)

lemma marks_row_eta:
  "\<lparr>Student = Student (m::marks_row), Subject = Subject m, Marks = Marks m\<rparr> = m"
  by (cases m) simp

lemma key_of_merged_with: "key_of (merged_with m p) = key_of m"
  by (simp add: key_of_def merged_with_def)

lemma distinct_summary_keys: "distinct (map key_of (attendance_summary_of df))"
  by (simp add: map_key_of_summary distinct_group_keys)

lemma sample_filtered_marks:
  "apply_filters sample_marks [''All Students''] [''All Subjects''] = sample_marks"
  by (simp add: apply_filters_all ALL_STUDENTS_def ALL_SUBJECTS_def)

lemma sample_merged:
  "merge_left sample_marks (attendance_summary_of sample_attendance) =
     [\<lparr>Student = ''A'', Subject = ''Math'', Marks = 30, Attendance_pct_merged = Some 50\<rparr>,
      \<lparr>Student = ''B'', Subject = ''Math'', Marks = 90, Attendance_pct_merged = Some 100\<rparr>,
      \<lparr>Student = ''C'', Subject = ''Math'', Marks = 10, Attendance_pct_merged = None\<rparr>,
      \<lparr>Student = ''B'', Subject = ''Art'', Marks = 40, Attendance_pct_merged = Some 0\<rparr>,
      \<lparr>Student = ''D'', Subject = ''Art'', Marks = 35, Attendance_pct_merged = Some 75\<rparr>]"
  by (simp add: sample_summary merge_left_def sample_marks_def key_of_def merged_with_def)

lemma sample_filtered_attendance:
  "apply_filters sample_attendance [''All Students''] [''All Subjects''] = sample_attendance"
  by (simp add: apply_filters_all ALL_STUDENTS_def ALL_SUBJECTS_def)

lemma dt_date_mono: "t \<le> u \<Longrightarrow> dt_date t \<le> dt_date u"
  by (simp add: dt_date_def ns_per_day_def zdiv_mono1)

lemma sorted_dt_date:
  "sorted (map Event_Date es) \<Longrightarrow> sorted (map (\<lambda>e. dt_date (Event_Date e)) es)"
  by (induction es) (auto simp: dt_date_mono)

lemma sample_upcoming:
  "sort_values_Date (filter (\<lambda>e. 19800 \<le> dt_date (Event_Date e)) sample_events) =
     [\<lparr>Event = ''Lab'', Event_Date = 19800 * ns_per_day, Event_Subject = ''Math''\<rparr>,
      \<lparr>Event = ''Quiz'', Event_Date = 19803 * ns_per_day + 32400000000000,
       Event_Subject = ''Math''\<rparr>,
      \<lparr>Event = ''Essay'', Event_Date = 19807 * ns_per_day + 82800000000000,
       Event_Subject = ''Art''\<rparr>,
      \<lparr>Event = ''Final'', Event_Date = 19810 * ns_per_day, Event_Subject = ''Math''\<rparr>]"
  by (simp add: sort_values_Date_def sample_events_def dt_date_def ns_per_day_def)

lemma avg_row_mean:
  assumes "r \<in> set (avg_marks_of mf)"
  shows "filter (\<lambda>a. Student a = Student r) mf \<noteq> []" and "Marks_mean r \<noteq> None"
proof -
  from assms obtain st where st: "st \<in> Student ` set mf"
    and r: "r = \<lparr>Student = st,
                  Marks_mean = mean_num (map Marks (filter (\<lambda>a. Student a = st) mf))\<rparr>"
    by (auto simp: avg_marks_of_def)
  from st have ne: "filter (\<lambda>a. Student a = st) mf \<noteq> []"
    by (auto simp: filter_empty_conv)
  from r ne show "filter (\<lambda>a. Student a = Student r) mf \<noteq> []" by simp
  from r ne show "Marks_mean r \<noteq> None" by (simp add: mean_num_def)
qed

lemma summary_row_defined:
  assumes "r \<in> set (attendance_summary_of df)"
  shows "filter (\<lambda>a. Student a = Student r \<and> Subject a = Subject r) df \<noteq> []"
    and "Attendance_pct r \<noteq> None"
proof -
  from summary_row_pct(1) [OF assms] have ne: "group_of df (key_of r) \<noteq> []"
    by (rule group_of_nonempty)
  then show "filter (\<lambda>a. Student a = Student r \<and> Subject a = Subject r) df \<noteq> []"
    by (simp add: group_of_explicit)
  from summary_row_pct(2) [OF assms] present_pct_Some [OF ne]
  show "Attendance_pct r \<noteq> None" by simp
qed

lemma empty_tables:
  "attendance_summary_of [] = []" "avg_marks_of [] = []" "merge_left [] right = []"
  by (simp_all add: attendance_summary_of_def group_keys_def avg_marks_of_def merge_left_def)

section \<open>Properties of the dashboard\<close>

subsection \<open>Attendance percentage\<close>

text \<open>
  C1. The attendance aggregation groups the records by (Student, Subject): the summary has
  one row for each key observed in the table and no other row. The percentage of a row is
  100 times the number of \<open>Present\<close> records of its group over the number of records of
  the group. So it lies between 0 and 100, it is 100 exactly when every status of the group
  is \<open>Present\<close>, and 0 exactly when none is.
\<close>

theorem attendance_percent_by_group:
  "distinct (map key_of (attendance_summary_of df)) \<and>
   key_of ` set (attendance_summary_of df) = key_of ` set df \<and>
   (\<forall>r \<in> set (attendance_summary_of df).
      \<exists>g p. g = filter (\<lambda>a. Student a = Student r \<and> Subject a = Subject r) df \<and>
            g \<noteq> [] \<and>
            Attendance_pct r = Some p \<and>
            p = 100 * real (length (filter (\<lambda>a. Status a = ''Present'') g)) / real (length g) \<and>
            0 \<le> p \<and> p \<le> 100 \<and>
            (p = 100 \<longleftrightarrow> (\<forall>a \<in> set g. Status a = ''Present'')) \<and>
            (p = 0 \<longleftrightarrow> (\<forall>a \<in> set g. Status a \<noteq> ''Present'')))"
proof (intro conjI ballI)
  show "distinct (map key_of (attendance_summary_of df))"
    by (simp add: map_key_of_summary distinct_group_keys)
  have "key_of ` set (attendance_summary_of df) = set (map key_of (attendance_summary_of df))"
    by simp
  then show "key_of ` set (attendance_summary_of df) = key_of ` set df"
    by (simp only: map_key_of_summary set_group_keys)
next
  fix r assume r: "r \<in> set (attendance_summary_of df)"
  define g where "g = filter (\<lambda>a. Student a = Student r \<and> Subject a = Subject r) df"
  define c where "c = length (filter (\<lambda>a. Status a = ''Present'') g)"
  define n where "n = length g"
  have g_eq: "g = group_of df (key_of r)" by (simp add: g_def group_of_explicit)
  from summary_row_pct(1) [OF r] have ne: "g \<noteq> []"
    unfolding g_eq by (rule group_of_nonempty)
  then have n: "0 < n" by (simp add: n_def)
  have cn: "c \<le> n" by (simp add: c_def n_def)
  have pct: "Attendance_pct r = Some (real c / real n * 100)"
    using summary_row_pct(2) [OF r] present_pct_Some [OF ne] by (simp add: g_eq c_def n_def)
  have all: "c = n \<longleftrightarrow> (\<forall>a \<in> set g. Status a = ''Present'')"
    unfolding c_def n_def by (rule length_filter_full)
  have none: "c = 0 \<longleftrightarrow> (\<forall>a \<in> set g. Status a \<noteq> ''Present'')"
    by (simp add: c_def filter_empty_conv)
  have "g \<noteq> [] \<and>
        Attendance_pct r = Some (real c / real n * 100) \<and>
        real c / real n * 100 = 100 * real c / real n \<and>
        0 \<le> real c / real n * 100 \<and> real c / real n * 100 \<le> 100 \<and>
        (real c / real n * 100 = 100 \<longleftrightarrow> (\<forall>a \<in> set g. Status a = ''Present'')) \<and>
        (real c / real n * 100 = 0 \<longleftrightarrow> (\<forall>a \<in> set g. Status a \<noteq> ''Present''))"
    using ne pct share_bounds [OF cn n] all none by simp
  then show "\<exists>g p. g = filter (\<lambda>a. Student a = Student r \<and> Subject a = Subject r) df \<and>
            g \<noteq> [] \<and>
            Attendance_pct r = Some p \<and>
            p = 100 * real (length (filter (\<lambda>a. Status a = ''Present'') g)) / real (length g) \<and>
            0 \<le> p \<and> p \<le> 100 \<and>
            (p = 100 \<longleftrightarrow> (\<forall>a \<in> set g. Status a = ''Present'')) \<and>
            (p = 0 \<longleftrightarrow> (\<forall>a \<in> set g. Status a \<noteq> ''Present''))"
    unfolding c_def n_def g_def [symmetric] by blast
qed

theorem attendance_percent_by_group_witness:
  "\<lparr>Student = ''A'', Subject = ''Math'', Attendance_pct = Some 50\<rparr>
     \<in> set (attendance_summary_of sample_attendance) \<and>
   filter (\<lambda>a. Student a = ''A'' \<and> Subject a = ''Math'') sample_attendance \<noteq> [] \<and>
   (50::real) =
     100 * real (length (filter (\<lambda>a. Status a = ''Present'')
                    (filter (\<lambda>a. Student a = ''A'' \<and> Subject a = ''Math'') sample_attendance))) /
     real (length (filter (\<lambda>a. Student a = ''A'' \<and> Subject a = ''Math'') sample_attendance)) \<and>
   \<not> (\<forall>a \<in> set (filter (\<lambda>a. Student a = ''A'' \<and> Subject a = ''Math'') sample_attendance).
         Status a = ''Present'') \<and>
   \<not> (\<forall>a \<in> set (filter (\<lambda>a. Student a = ''A'' \<and> Subject a = ''Math'') sample_attendance).
         Status a \<noteq> ''Present'')"
proof -
  let ?r = "\<lparr>Student = ''A'', Subject = ''Math'', Attendance_pct = Some 50\<rparr>"
  let ?g = "filter (\<lambda>a. Student a = ''A'' \<and> Subject a = ''Math'') sample_attendance"
  have r: "?r \<in> set (attendance_summary_of sample_attendance)"
    by (simp add: sample_summary)
  from attendance_percent_by_group [of sample_attendance]
  have "\<exists>g p. g = filter (\<lambda>a. Student a = Student ?r \<and> Subject a = Subject ?r) sample_attendance \<and>
            g \<noteq> [] \<and>
            Attendance_pct ?r = Some p \<and>
            p = 100 * real (length (filter (\<lambda>a. Status a = ''Present'') g)) / real (length g) \<and>
            0 \<le> p \<and> p \<le> 100 \<and>
            (p = 100 \<longleftrightarrow> (\<forall>a \<in> set g. Status a = ''Present'')) \<and>
            (p = 0 \<longleftrightarrow> (\<forall>a \<in> set g. Status a \<noteq> ''Present''))"
    using r by (rule bspec [OF conjunct2 [OF conjunct2]])
  then obtain g p where g: "g = ?g"
    and ne: "g \<noteq> []" and p: "Some (50::real) = Some p"
    and v: "p = 100 * real (length (filter (\<lambda>a. Status a = ''Present'') g)) / real (length g)"
    and a: "(p = 100 \<longleftrightarrow> (\<forall>a \<in> set g. Status a = ''Present''))"
    and z: "(p = 0 \<longleftrightarrow> (\<forall>a \<in> set g. Status a \<noteq> ''Present''))"
    by (elim exE conjE) simp
  from p have p50: "p = 50" by simp
  from a p50 have a': "\<not> (\<forall>a \<in> set g. Status a = ''Present'')" by simp
  from z p50 have z': "\<not> (\<forall>a \<in> set g. Status a \<noteq> ''Present'')" by simp
  show ?thesis
    using r ne v a' z' unfolding p50 g by - (intro conjI, assumption+)
qed

subsection \<open>Special attention\<close>

text \<open>
  C2. The special-attention computation left-joins the filtered mark records with the
  attendance summary of the whole, unfiltered attendance table on (Student, Subject): every
  filtered mark record appears once in the merged table, in order, with the percentage of the
  summary row of its key, or with NaN when the summary has no row of its key. The
  special-attention table is exactly the merged rows with marks below 40 and a percentage
  below 75. A mark record whose key has no summary row is in the merged table and never in
  the special-attention table, whatever its marks.
\<close>

theorem special_attention_left_join:
  "attendance_summary (tab2 s) = attendance_summary_of (attendance_df s) \<and>
   merged_df (tab2 s) = merge_left (filtered_marks_df (tab2 s)) (attendance_summary (tab2 s)) \<and>
   map (\<lambda>r. \<lparr>Student = Student r, Subject = Subject r, Marks = Marks r\<rparr>) (merged_df (tab2 s))
     = filtered_marks_df (tab2 s) \<and>
   (\<forall>r \<in> set (merged_df (tab2 s)).
      (\<forall>a \<in> set (attendance_summary (tab2 s)).
         key_of a = key_of r \<longrightarrow> Attendance_pct_merged r = Attendance_pct a) \<and>
      ((\<forall>a \<in> set (attendance_summary (tab2 s)). key_of a \<noteq> key_of r) \<longrightarrow>
         Attendance_pct_merged r = None)) \<and>
   special_attention (tab2 s) =
     filter (\<lambda>r. Marks r < 40 \<and> (\<exists>p. Attendance_pct_merged r = Some p \<and> p < 75))
       (merged_df (tab2 s)) \<and>
   (\<forall>r \<in> set (special_attention (tab2 s)).
      \<exists>a \<in> set (attendance_summary (tab2 s)). key_of a = key_of r)"
proof -
  let ?right = "attendance_summary (tab2 s)"
  let ?left = "filtered_marks_df (tab2 s)"
  let ?pct = "\<lambda>m. case find (\<lambda>a. key_of a = key_of m) ?right of
                      None \<Rightarrow> None | Some a \<Rightarrow> Attendance_pct a"
  have d: "distinct (map key_of ?right)"
    by (simp add: tab2_fields distinct_summary_keys)
  have m: "merged_df (tab2 s) = map (\<lambda>m. merged_with m (?pct m)) ?left"
    by (simp only: tab2_fields(5) merge_left_distinct [OF d])
  have c1: "attendance_summary (tab2 s) = attendance_summary_of (attendance_df s)"
    by (rule tab2_fields)
  have c2: "merged_df (tab2 s) = merge_left ?left ?right"
    by (rule tab2_fields)
  have c3: "map (\<lambda>r. \<lparr>Student = Student r, Subject = Subject r, Marks = Marks r\<rparr>)
              (merged_df (tab2 s)) = ?left"
    unfolding m by (simp add: o_def merged_with_def marks_row_eta)
  have c4: "(\<forall>a \<in> set ?right. key_of a = key_of r \<longrightarrow> Attendance_pct_merged r = Attendance_pct a) \<and>
            ((\<forall>a \<in> set ?right. key_of a \<noteq> key_of r) \<longrightarrow> Attendance_pct_merged r = None)"
    if r: "r \<in> set (merged_df (tab2 s))" for r
  proof -
    from r obtain m' where r_eq: "r = merged_with m' (?pct m')"
      unfolding m by auto
    have k: "key_of r = key_of m'" by (simp add: r_eq key_of_merged_with)
    have p: "Attendance_pct_merged r = ?pct m'" by (simp add: r_eq merged_with_def)
    show ?thesis
    proof (intro conjI ballI impI)
      fix a assume "a \<in> set ?right" and "key_of a = key_of r"
      then have "find (\<lambda>a. key_of a = key_of m') ?right = Some a"
        using find_key_unique [OF d] k by simp
      then show "Attendance_pct_merged r = Attendance_pct a" by (simp add: p)
    next
      assume "\<forall>a \<in> set ?right. key_of a \<noteq> key_of r"
      then have "find (\<lambda>a. key_of a = key_of m') ?right = None"
        using k by (simp add: find_None_iff)
      then show "Attendance_pct_merged r = None" by (simp add: p)
    qed
  qed
  have c5: "special_attention (tab2 s) =
     filter (\<lambda>r. Marks r < 40 \<and> (\<exists>p. Attendance_pct_merged r = Some p \<and> p < 75))
       (merged_df (tab2 s))"
    by (simp add: tab2_fields(6) nan_less_iff FAILING_MARK_THRESHOLD_def
        LOW_ATTENDANCE_THRESHOLD_def)
  have c6: "\<exists>a \<in> set ?right. key_of a = key_of r" if r: "r \<in> set (special_attention (tab2 s))" for r
  proof (rule ccontr)
    assume "\<not> (\<exists>a \<in> set ?right. key_of a = key_of r)"
    then have no: "\<forall>a \<in> set ?right. key_of a \<noteq> key_of r" by simp
    from r have rm: "r \<in> set (merged_df (tab2 s))"
      and "\<exists>p. Attendance_pct_merged r = Some p \<and> p < 75"
      unfolding c5 by simp_all
    moreover from c4 [OF rm] no have "Attendance_pct_merged r = None" by blast
    ultimately show False by simp
  qed
  from c1 c2 c3 c4 c5 c6 show ?thesis by blast
qed

theorem special_attention_left_join_witness:
  "merged_df (tab2 sample_env) =
     [\<lparr>Student = ''A'', Subject = ''Math'', Marks = 30, Attendance_pct_merged = Some 50\<rparr>,
      \<lparr>Student = ''B'', Subject = ''Math'', Marks = 90, Attendance_pct_merged = Some 100\<rparr>,
      \<lparr>Student = ''C'', Subject = ''Math'', Marks = 10, Attendance_pct_merged = None\<rparr>,
      \<lparr>Student = ''B'', Subject = ''Art'', Marks = 40, Attendance_pct_merged = Some 0\<rparr>,
      \<lparr>Student = ''D'', Subject = ''Art'', Marks = 35, Attendance_pct_merged = Some 75\<rparr>] \<and>
   special_attention (tab2 sample_env) =
     [\<lparr>Student = ''A'', Subject = ''Math'', Marks = 30, Attendance_pct_merged = Some 50\<rparr>] \<and>
   (''C'', ''Math'') \<notin> key_of ` set (attendance_summary_of sample_attendance)"
proof -
  have f: "filtered_marks_df (tab2 sample_env) = sample_marks"
    by (simp add: tab2_fields sample_env_def sample_filtered_marks)
  have a: "attendance_df sample_env = sample_attendance"
    by (simp add: sample_env_def)
  have n: "(''C'', ''Math'') \<notin> key_of ` set (attendance_summary_of sample_attendance)"
    by (simp add: sample_summary key_of_def)
  from special_attention_left_join [of sample_env] n show ?thesis
    by (simp add: f a sample_merged)
qed

text \<open>
  C5. The attendance summary that the special-attention computation uses is the summary of
  the whole attendance table. For any two selections in the attendance filters, with the
  tables and the marks filters unchanged, a run of the page yields the same merged table and
  the same special-attention table.
\<close>

theorem special_attention_ignores_attendance_filters:
  "attendance_summary (dashboard s) = attendance_summary_of (attendance_df s) \<and>
   special_attention (dashboard s) =
     filter (\<lambda>r. Marks r < 40 \<and> (\<exists>p. Attendance_pct_merged r = Some p \<and> p < 75))
       (merge_left
          (apply_filters (marks_df s) (selected_students_marks s) (selected_subjects_marks s))
          (attendance_summary_of (attendance_df s))) \<and>
   special_attention
     (dashboard (s\<lparr>selected_students_attendance := a, selected_subjects_attendance := b\<rparr>)) =
   special_attention
     (dashboard (s\<lparr>selected_students_attendance := a', selected_subjects_attendance := b'\<rparr>)) \<and>
   merged_df
     (dashboard (s\<lparr>selected_students_attendance := a, selected_subjects_attendance := b\<rparr>)) =
   merged_df
     (dashboard (s\<lparr>selected_students_attendance := a', selected_subjects_attendance := b'\<rparr>))"
  by (simp add: dashboard_def tab3_fields tab2_fields tab1_frame nan_less_iff
      LOW_ATTENDANCE_THRESHOLD_def FAILING_MARK_THRESHOLD_def)

theorem special_attention_ignores_attendance_filters_witness:
  "special_attention
     (dashboard (sample_env\<lparr>selected_students_attendance := [''B''],
                            selected_subjects_attendance := [''Art'']\<rparr>)) =
     [\<lparr>Student = ''A'', Subject = ''Math'', Marks = 30, Attendance_pct_merged = Some 50\<rparr>] \<and>
   special_attention
     (dashboard (sample_env\<lparr>selected_students_attendance := [],
                            selected_subjects_attendance := [''All Subjects'']\<rparr>)) =
     [\<lparr>Student = ''A'', Subject = ''Math'', Marks = 30, Attendance_pct_merged = Some 50\<rparr>]"
proof -
  let ?s1 = "sample_env\<lparr>selected_students_attendance := [''B''],
                        selected_subjects_attendance := [''Art'']\<rparr>"
  have m: "marks_df ?s1 = sample_marks" "attendance_df ?s1 = sample_attendance"
    "selected_students_marks ?s1 = [''All Students'']"
    "selected_subjects_marks ?s1 = [''All Subjects'']"
    by (simp_all add: sample_env_def)
  have e: "special_attention (dashboard ?s1) =
     [\<lparr>Student = ''A'', Subject = ''Math'', Marks = 30, Attendance_pct_merged = Some 50\<rparr>]"
    using special_attention_ignores_attendance_filters [of ?s1]
    by (simp only: m sample_filtered_marks sample_merged) simp
  from special_attention_ignores_attendance_filters
    [where s = sample_env and a = "[]" and b = "[''All Subjects'']"
       and a' = "[''B'']" and b' = "[''Art'']"] e
  show ?thesis by simp
qed

subsection \<open>Threshold alerts\<close>

text \<open>
  C3. The low-attendance list is exactly the rows of the summary of the filtered attendance
  table with a percentage strictly below 75, and the failing list exactly the filtered mark
  records with marks strictly below 40. A row at exactly 75 percent, or a record with marks
  of exactly 40, is in neither list.
\<close>

theorem alert_lists_strict:
  "low_attendance (tab1 s) =
     filter (\<lambda>r. \<exists>p. Attendance_pct r = Some p \<and> p < 75)
       (attendance_summary_of (filtered_df (tab1 s))) \<and>
   failing_students (tab2 s) = filter (\<lambda>r. Marks r < 40) (filtered_marks_df (tab2 s)) \<and>
   (\<forall>r \<in> set (attendance_summary_of (filtered_df (tab1 s))).
      Attendance_pct r = Some 75 \<longrightarrow> r \<notin> set (low_attendance (tab1 s))) \<and>
   (\<forall>r \<in> set (filtered_marks_df (tab2 s)).
      Marks r = 40 \<longrightarrow> r \<notin> set (failing_students (tab2 s)))"
  by (simp add: tab1_fields tab2_fields nan_less_iff LOW_ATTENDANCE_THRESHOLD_def
      FAILING_MARK_THRESHOLD_def)

theorem alert_lists_strict_witness:
  "low_attendance (tab1 sample_env) =
     [\<lparr>Student = ''A'', Subject = ''Math'', Attendance_pct = Some 50\<rparr>,
      \<lparr>Student = ''B'', Subject = ''Art'', Attendance_pct = Some 0\<rparr>] \<and>
   failing_students (tab2 sample_env) =
     [\<lparr>Student = ''A'', Subject = ''Math'', Marks = 30\<rparr>,
      \<lparr>Student = ''C'', Subject = ''Math'', Marks = 10\<rparr>,
      \<lparr>Student = ''D'', Subject = ''Art'', Marks = 35\<rparr>] \<and>
   \<lparr>Student = ''D'', Subject = ''Art'', Attendance_pct = Some 75\<rparr>
     \<in> set (attendance_summary_of (filtered_df (tab1 sample_env))) \<and>
   \<lparr>Student = ''D'', Subject = ''Art'', Attendance_pct = Some 75\<rparr>
     \<notin> set (low_attendance (tab1 sample_env)) \<and>
   \<lparr>Student = ''B'', Subject = ''Art'', Marks = 40\<rparr> \<in> set (filtered_marks_df (tab2 sample_env)) \<and>
   \<lparr>Student = ''B'', Subject = ''Art'', Marks = 40\<rparr> \<notin> set (failing_students (tab2 sample_env))"
proof -
  have f: "filtered_df (tab1 sample_env) = sample_attendance"
    by (simp add: tab1_fields sample_env_def sample_filtered_attendance)
  have m: "filtered_marks_df (tab2 sample_env) = sample_marks"
    by (simp add: tab2_fields sample_env_def sample_filtered_marks)
  have d: "\<lparr>Student = ''D'', Subject = ''Art'', Attendance_pct = Some 75\<rparr>
             \<in> set (attendance_summary_of (filtered_df (tab1 sample_env)))"
    by (simp add: f sample_summary)
  have b: "\<lparr>Student = ''B'', Subject = ''Art'', Marks = 40\<rparr> \<in> set (filtered_marks_df (tab2 sample_env))"
    by (simp add: m sample_marks_def)
  from alert_lists_strict [of sample_env] d b show ?thesis
    by (simp add: f m sample_summary sample_marks_def)
qed

subsection \<open>Filters\<close>

text \<open>
  C4. For every table and pair of selections: a dimension whose selection holds the sentinel
  is unrestricted; otherwise only the rows whose value is in the selection are kept; the two
  dimensions apply together. An empty selection yields no rows, not an error. The attendance
  tab and the marks tab both filter this way.
\<close>

theorem filter_semantics:
  "apply_filters df ss sj =
     filter (\<lambda>r. (''All Students'' \<in> set ss \<or> Student r \<in> set ss) \<and>
                 (''All Subjects'' \<in> set sj \<or> Subject r \<in> set sj)) df \<and>
   apply_filters df [] sj = [] \<and>
   apply_filters df ss [] = [] \<and>
   filtered_df (tab1 s) =
     apply_filters (attendance_df s)
       (selected_students_attendance s) (selected_subjects_attendance s) \<and>
   filtered_marks_df (tab2 s) =
     apply_filters (marks_df s) (selected_students_marks s) (selected_subjects_marks s)"
  by (simp add: apply_filters_eq_filter tab1_fields tab2_fields ALL_STUDENTS_def ALL_SUBJECTS_def)

theorem filter_semantics_witness:
  "apply_filters sample_attendance [''All Students''] [''Math''] =
     [\<lparr>Student = ''A'', Subject = ''Math'', Date = 19723 * ns_per_day, Status = ''Present''\<rparr>,
      \<lparr>Student = ''A'', Subject = ''Math'', Date = 19724 * ns_per_day, Status = ''Absent''\<rparr>,
      \<lparr>Student = ''B'', Subject = ''Math'', Date = 19723 * ns_per_day, Status = ''Present''\<rparr>] \<and>
   apply_filters sample_marks [''B'', ''D''] [''Art''] =
     [\<lparr>Student = ''B'', Subject = ''Art'', Marks = 40\<rparr>,
      \<lparr>Student = ''D'', Subject = ''Art'', Marks = 35\<rparr>] \<and>
   apply_filters sample_marks [] [''All Subjects''] = []"
  using filter_semantics [of sample_attendance "[''All Students'']" "[''Math'']"]
    filter_semantics [of sample_marks "[''B'', ''D'']" "[''Art'']"]
    filter_semantics [of sample_marks "[]" "[''All Subjects'']"]
  by (simp add: sample_attendance_def sample_marks_def)

text \<open>
  C6. Filtering is idempotent: filtering the output again with the same selections returns
  it unchanged. With the sentinel in both selections the filter returns its input.
\<close>

theorem filter_idempotent_identity:
  "apply_filters (apply_filters df ss sj) ss sj = apply_filters df ss sj \<and>
   (''All Students'' \<in> set ss \<and> ''All Subjects'' \<in> set sj \<longrightarrow> apply_filters df ss sj = df)"
  by (simp add: apply_filters_idem apply_filters_all ALL_STUDENTS_def ALL_SUBJECTS_def)

theorem filter_idempotent_identity_witness:
  "''All Students'' \<in> set [''All Students'', ''A''] \<and>
   ''All Subjects'' \<in> set [''All Subjects''] \<and>
   apply_filters sample_attendance [''All Students'', ''A''] [''All Subjects''] = sample_attendance \<and>
   apply_filters (apply_filters sample_marks [''B''] [''Math'', ''Art'']) [''B''] [''Math'', ''Art'']
     = apply_filters sample_marks [''B''] [''Math'', ''Art'']"
proof -
  have a: "''All Students'' \<in> set [''All Students'', ''A'']" by simp
  have b: "''All Subjects'' \<in> set [''All Subjects'']" by simp
  from filter_idempotent_identity
         [where df = sample_attendance and ss = "[''All Students'', ''A'']"
            and sj = "[''All Subjects'']"] a b
  have c: "apply_filters sample_attendance [''All Students'', ''A''] [''All Subjects'']
             = sample_attendance"
    by blast
  from filter_idempotent_identity
         [where df = sample_marks and ss = "[''B'']" and sj = "[''Math'', ''Art'']"]
  have d: "apply_filters (apply_filters sample_marks [''B''] [''Math'', ''Art''])
             [''B''] [''Math'', ''Art'']
           = apply_filters sample_marks [''B''] [''Math'', ''Art'']"
    by (rule conjunct1)
  from a b c d show ?thesis by - (intro conjI, assumption+)
qed

text \<open>
  C10. The sentinel is a plain string: whenever \<open>All Students\<close> (or \<open>All Subjects\<close>) is
  in a selection, that dimension is unrestricted, whatever the table holds. When a record's
  Student is itself \<open>All Students\<close>, selecting that value returns every row, and no selection
  returns only that student's rows from a table that also holds another student.
\<close>

theorem sentinel_is_magic_string:
  "(''All Students'' \<in> set ss \<longrightarrow>
      apply_filters df ss sj =
        filter (\<lambda>r. ''All Subjects'' \<in> set sj \<or> Subject r \<in> set sj) df) \<and>
   (''All Subjects'' \<in> set sj \<longrightarrow>
      apply_filters df ss sj =
        filter (\<lambda>r. ''All Students'' \<in> set ss \<or> Student r \<in> set ss) df) \<and>
   (''All Students'' \<in> set ss \<and> ''All Subjects'' \<in> set sj \<longrightarrow> apply_filters df ss sj = df) \<and>
   (r1 \<in> set df \<and> Student r1 = ''All Students'' \<and>
    r2 \<in> set df \<and> Student r2 \<noteq> ''All Students'' \<and> ''All Subjects'' \<in> set sj \<longrightarrow>
      apply_filters df ss sj \<noteq> filter (\<lambda>r. Student r = ''All Students'') df)"
proof (intro conjI impI)
  show "apply_filters df ss sj = filter (\<lambda>r. ''All Subjects'' \<in> set sj \<or> Subject r \<in> set sj) df"
    if "''All Students'' \<in> set ss"
    using that by (simp add: apply_filters_eq_filter ALL_STUDENTS_def ALL_SUBJECTS_def)
  show "apply_filters df ss sj = filter (\<lambda>r. ''All Students'' \<in> set ss \<or> Student r \<in> set ss) df"
    if "''All Subjects'' \<in> set sj"
    using that by (simp add: apply_filters_eq_filter ALL_STUDENTS_def ALL_SUBJECTS_def)
  show "apply_filters df ss sj = df"
    if "''All Students'' \<in> set ss \<and> ''All Subjects'' \<in> set sj"
    using that by (simp add: apply_filters_all ALL_STUDENTS_def ALL_SUBJECTS_def)
next
  assume h: "r1 \<in> set df \<and> Student r1 = ''All Students'' \<and>
    r2 \<in> set df \<and> Student r2 \<noteq> ''All Students'' \<and> ''All Subjects'' \<in> set sj"
  let ?only = "filter (\<lambda>r. Student r = ''All Students'') df"
  have set_eq: "set (apply_filters df ss sj) =
      {r \<in> set df. ''All Students'' \<in> set ss \<or> Student r \<in> set ss}"
    using h by (auto simp: apply_filters_eq_filter ALL_STUDENTS_def ALL_SUBJECTS_def)
  show "apply_filters df ss sj \<noteq> ?only"
  proof (cases "''All Students'' \<in> set ss")
    case True
    with h set_eq have "r2 \<in> set (apply_filters df ss sj)" by simp
    moreover from h have "r2 \<notin> set ?only" by simp
    ultimately show ?thesis by metis
  next
    case False
    with h set_eq have "r1 \<notin> set (apply_filters df ss sj)" by simp
    moreover from h have "r1 \<in> set ?only" by simp
    ultimately show ?thesis by metis
  qed
qed

theorem sentinel_is_magic_string_witness:
  "''All Students'' \<in> set [''All Students''] \<and> ''All Subjects'' \<in> set [''All Subjects''] \<and>
   \<lparr>Student = ''All Students'', Subject = ''Math'', Marks = 55\<rparr> \<in> set sample_collision \<and>
   \<lparr>Student = ''Bob'', Subject = ''Math'', Marks = 65\<rparr> \<in> set sample_collision \<and>
   apply_filters sample_collision [''All Students''] [''All Subjects''] =
     [\<lparr>Student = ''All Students'', Subject = ''Math'', Marks = 55\<rparr>,
      \<lparr>Student = ''Bob'', Subject = ''Math'', Marks = 65\<rparr>] \<and>
   apply_filters sample_collision [''All Students''] [''All Subjects''] \<noteq>
     filter (\<lambda>r. Student r = ''All Students'') sample_collision"
proof -
  let ?r1 = "\<lparr>Student = ''All Students'', Subject = ''Math'', Marks = 55\<rparr>"
  let ?r2 = "\<lparr>Student = ''Bob'', Subject = ''Math'', Marks = 65\<rparr>"
  have a: "''All Students'' \<in> set [''All Students'']" by simp
  have b: "''All Subjects'' \<in> set [''All Subjects'']" by simp
  have r1: "?r1 \<in> set sample_collision" by (simp add: sample_collision_def)
  have r2: "?r2 \<in> set sample_collision" by (simp add: sample_collision_def)
  have s1: "Student ?r1 = ''All Students''" by simp
  have s2: "Student ?r2 \<noteq> ''All Students''" by simp
  note t = sentinel_is_magic_string
    [where df = sample_collision and ss = "[''All Students'']" and sj = "[''All Subjects'']"
       and ?r1.0 = ?r1 and ?r2.0 = ?r2]
  from t a b have c: "apply_filters sample_collision [''All Students''] [''All Subjects'']
      = sample_collision" by blast
  from t r1 s1 r2 s2 b
  have d: "apply_filters sample_collision [''All Students''] [''All Subjects''] \<noteq>
     filter (\<lambda>r. Student r = ''All Students'') sample_collision" by blast
  have c': "apply_filters sample_collision [''All Students''] [''All Subjects''] = [?r1, ?r2]"
    unfolding c by (simp add: sample_collision_def)
  from a b r1 r2 c' d show ?thesis by - (intro conjI, assumption+)
qed

subsection \<open>Events\<close>

text \<open>
  C7. The upcoming table holds exactly the events dated today or later, in ascending order
  of date. The near-deadline list holds exactly the events dated from today to seven days
  from today, both days included.
\<close>

theorem upcoming_and_near_deadline:
  "mset (upcoming (tab3 s)) =
     mset (filter (\<lambda>e. today s \<le> dt_date (Event_Date e)) (events_df s)) \<and>
   sorted (map Event_Date (upcoming (tab3 s))) \<and>
   sorted (map (\<lambda>e. dt_date (Event_Date e)) (upcoming (tab3 s))) \<and>
   mset (near_deadline (tab3 s)) =
     mset (filter (\<lambda>e. today s \<le> dt_date (Event_Date e) \<and>
                        dt_date (Event_Date e) \<le> today s + 7) (events_df s)) \<and>
   sorted (map Event_Date (near_deadline (tab3 s))) \<and>
   (\<forall>e \<in> set (events_df s).
      dt_date (Event_Date e) = today s \<or> dt_date (Event_Date e) = today s + 7 \<longrightarrow>
      e \<in> set (near_deadline (tab3 s)))"
proof -
  let ?up = "upcoming (tab3 s)"
  have u: "?up = sort_key Event_Date
                   (filter (\<lambda>e. today s \<le> dt_date (Event_Date e)) (events_df s))"
    by (simp add: tab3_fields sort_values_Date_def)
  have n: "near_deadline (tab3 s) = filter (\<lambda>e. dt_date (Event_Date e) \<le> today s + 7) ?up"
    by (rule tab3_fields)
  have c1: "mset ?up = mset (filter (\<lambda>e. today s \<le> dt_date (Event_Date e)) (events_df s))"
    unfolding u by simp
  have c2: "sorted (map Event_Date ?up)"
    unfolding u by simp
  have c3: "sorted (map (\<lambda>e. dt_date (Event_Date e)) ?up)"
    using c2 by (rule sorted_dt_date)
  have c4: "mset (near_deadline (tab3 s)) =
     mset (filter (\<lambda>e. today s \<le> dt_date (Event_Date e) \<and>
                        dt_date (Event_Date e) \<le> today s + 7) (events_df s))"
    unfolding n by (simp only: mset_filter c1 filter_filter_mset)
  have c5: "sorted (map Event_Date (near_deadline (tab3 s)))"
    unfolding n using c2 by (rule sorted_filter)
  have c6: "\<forall>e \<in> set (events_df s).
      dt_date (Event_Date e) = today s \<or> dt_date (Event_Date e) = today s + 7 \<longrightarrow>
      e \<in> set (near_deadline (tab3 s))"
  proof (intro ballI impI)
    fix e assume e: "e \<in> set (events_df s)"
      and d: "dt_date (Event_Date e) = today s \<or> dt_date (Event_Date e) = today s + 7"
    from d have "today s \<le> dt_date (Event_Date e) \<and> dt_date (Event_Date e) \<le> today s + 7"
      by auto
    with e have "e \<in># mset (near_deadline (tab3 s))"
      unfolding c4 by simp
    then show "e \<in> set (near_deadline (tab3 s))" by simp
  qed
  from c1 c2 c3 c4 c5 c6 show ?thesis by - (intro conjI, assumption+)
qed

theorem upcoming_and_near_deadline_witness:
  "upcoming (tab3 sample_env) =
     [\<lparr>Event = ''Lab'', Event_Date = 19800 * ns_per_day, Event_Subject = ''Math''\<rparr>,
      \<lparr>Event = ''Quiz'', Event_Date = 19803 * ns_per_day + 32400000000000,
       Event_Subject = ''Math''\<rparr>,
      \<lparr>Event = ''Essay'', Event_Date = 19807 * ns_per_day + 82800000000000,
       Event_Subject = ''Art''\<rparr>,
      \<lparr>Event = ''Final'', Event_Date = 19810 * ns_per_day, Event_Subject = ''Math''\<rparr>] \<and>
   \<lparr>Event = ''Lab'', Event_Date = 19800 * ns_per_day, Event_Subject = ''Math''\<rparr>
     \<in> set (near_deadline (tab3 sample_env)) \<and>
   \<lparr>Event = ''Essay'', Event_Date = 19807 * ns_per_day + 82800000000000,
     Event_Subject = ''Art''\<rparr> \<in> set (near_deadline (tab3 sample_env)) \<and>
   mset (near_deadline (tab3 sample_env)) =
     {#\<lparr>Event = ''Quiz'', Event_Date = 19803 * ns_per_day + 32400000000000,
        Event_Subject = ''Math''\<rparr>,
       \<lparr>Event = ''Essay'', Event_Date = 19807 * ns_per_day + 82800000000000,
        Event_Subject = ''Art''\<rparr>,
       \<lparr>Event = ''Lab'', Event_Date = 19800 * ns_per_day, Event_Subject = ''Math''\<rparr>#}"
proof -
  let ?lab = "\<lparr>Event = ''Lab'', Event_Date = 19800 * ns_per_day, Event_Subject = ''Math''\<rparr>"
  let ?essay = "\<lparr>Event = ''Essay'', Event_Date = 19807 * ns_per_day + 82800000000000,
                 Event_Subject = ''Art''\<rparr>"
  have i: "events_df sample_env = sample_events" "today sample_env = 19800"
    by (simp_all add: sample_env_def)
  have u: "upcoming (tab3 sample_env) = sort_values_Date
             (filter (\<lambda>e. 19800 \<le> dt_date (Event_Date e)) sample_events)"
    by (simp add: tab3_fields i)
  have l: "?lab \<in> set (events_df sample_env)" "dt_date (Event_Date ?lab) = today sample_env"
    by (simp_all add: i sample_events_def dt_date_def ns_per_day_def)
  have e: "?essay \<in> set (events_df sample_env)"
    "dt_date (Event_Date ?essay) = today sample_env + 7"
    by (simp_all add: i sample_events_def dt_date_def ns_per_day_def)
  note t = upcoming_and_near_deadline [of sample_env]
  from t l have n1: "?lab \<in> set (near_deadline (tab3 sample_env))" by blast
  from t e have n2: "?essay \<in> set (near_deadline (tab3 sample_env))" by blast
  from t have "mset (near_deadline (tab3 sample_env)) =
     mset (filter (\<lambda>e. today sample_env \<le> dt_date (Event_Date e) \<and>
                        dt_date (Event_Date e) \<le> today sample_env + 7) (events_df sample_env))"
    by blast
  then have n3: "mset (near_deadline (tab3 sample_env)) = {#
       \<lparr>Event = ''Quiz'', Event_Date = 19803 * ns_per_day + 32400000000000,
        Event_Subject = ''Math''\<rparr>, ?essay, ?lab#}"
    by (simp add: i sample_events_def dt_date_def ns_per_day_def)
  from u sample_upcoming n1 n2 n3 show ?thesis by simp
qed

subsection \<open>Empty states\<close>

text \<open>
  C8. When the special-attention table is empty, the marks tab shows an explicit all-clear
  message in place of the table and the scatter plot. When the near-deadline list is empty,
  the events tab shows nothing for it: no table, no message. The two empty states differ.
\<close>

theorem empty_state_asymmetry:
  "(special_attention (tab2 s) = [] \<longrightarrow>
      out (tab2 s) = out s @
        marks_overview (filtered_marks_df (tab2 s)) (failing_students (tab2 s)) (avg_marks (tab2 s)) @
        [St_success (check_mark @ '' No students currently flagged for special attention.'')]) \<and>
   (special_attention (tab2 s) \<noteq> [] \<longrightarrow>
      out (tab2 s) = out s @
        marks_overview (filtered_marks_df (tab2 s)) (failing_students (tab2 s)) (avg_marks (tab2 s)) @
        [St_warning (warning_sign @
           '' These students need special attention (low marks & low attendance):''),
         St_dataframe (Merged_tbl (special_attention (tab2 s))),
         St_plotly_chart (Px_scatter (merged_df (tab2 s)))]) \<and>
   (near_deadline (tab3 s) = [] \<longrightarrow>
      out (tab3 s) = out s @
        [St_header (calendar @ '' Upcoming Exams & Assignments''),
         St_dataframe (Events_tbl (upcoming (tab3 s)))]) \<and>
   (near_deadline (tab3 s) \<noteq> [] \<longrightarrow>
      out (tab3 s) = out s @
        [St_header (calendar @ '' Upcoming Exams & Assignments''),
         St_dataframe (Events_tbl (upcoming (tab3 s))),
         St_warning (warning_sign @ '' Deadlines within 7 days:''),
         St_dataframe (Events_tbl (near_deadline (tab3 s)))])"
  by (simp add: tab2_fields(7) tab3_fields(3) special_attention_section_def
      near_deadline_section_def)

theorem empty_state_asymmetry_witness:
  "special_attention (tab2 (sample_env\<lparr>selected_students_marks := [''B'']\<rparr>)) = [] \<and>
   out (tab2 (sample_env\<lparr>selected_students_marks := [''B'']\<rparr>)) =
     [St_header (memo @ '' Marks Overview''),
      St_subheader ''Marks Data'',
      St_dataframe (Marks_tbl
        [\<lparr>Student = ''B'', Subject = ''Math'', Marks = 90\<rparr>,
         \<lparr>Student = ''B'', Subject = ''Art'', Marks = 40\<rparr>]),
      St_subheader ''Average Marks per Student'',
      St_plotly_chart (Px_bar_marks [\<lparr>Student = ''B'', Marks_mean = Some 65\<rparr>]),
      St_subheader ''Subject-wise Marks Distribution'',
      St_plotly_chart (Px_box
        [\<lparr>Student = ''B'', Subject = ''Math'', Marks = 90\<rparr>,
         \<lparr>Student = ''B'', Subject = ''Art'', Marks = 40\<rparr>]),
      St_subheader (police_light @ '' Students Needing Special Attention''),
      St_success (check_mark @ '' No students currently flagged for special attention.'')] \<and>
   special_attention (tab2 sample_env) \<noteq> [] \<and>
   drop 10 (out (tab2 sample_env)) =
     [St_warning (warning_sign @
        '' These students need special attention (low marks & low attendance):''),
      St_dataframe (Merged_tbl
        [\<lparr>Student = ''A'', Subject = ''Math'', Marks = 30, Attendance_pct_merged = Some 50\<rparr>]),
      St_plotly_chart (Px_scatter (merged_df (tab2 sample_env)))] \<and>
   near_deadline (tab3 (sample_env\<lparr>today := 19790\<rparr>)) = [] \<and>
   out (tab3 (sample_env\<lparr>today := 19790\<rparr>)) =
     [St_header (calendar @ '' Upcoming Exams & Assignments''),
      St_dataframe (Events_tbl
        [\<lparr>Event = ''Old'', Event_Date = 19799 * ns_per_day, Event_Subject = ''Art''\<rparr>,
         \<lparr>Event = ''Lab'', Event_Date = 19800 * ns_per_day, Event_Subject = ''Math''\<rparr>,
         \<lparr>Event = ''Quiz'', Event_Date = 19803 * ns_per_day + 32400000000000,
          Event_Subject = ''Math''\<rparr>,
         \<lparr>Event = ''Essay'', Event_Date = 19807 * ns_per_day + 82800000000000,
          Event_Subject = ''Art''\<rparr>,
         \<lparr>Event = ''Final'', Event_Date = 19810 * ns_per_day, Event_Subject = ''Math''\<rparr>])] \<and>
   near_deadline (tab3 sample_env) \<noteq> [] \<and>
   drop 2 (out (tab3 sample_env)) =
     [St_warning (warning_sign @ '' Deadlines within 7 days:''),
      St_dataframe (Events_tbl (near_deadline (tab3 sample_env)))]"
proof -
  let ?sB = "sample_env\<lparr>selected_students_marks := [''B'']\<rparr>"
  let ?sT = "sample_env\<lparr>today := 19790\<rparr>"
  have inB: "marks_df ?sB = sample_marks" "attendance_df ?sB = sample_attendance"
    "selected_students_marks ?sB = [''B'']" "selected_subjects_marks ?sB = [''All Subjects'']"
    "out ?sB = []"
    by (simp_all add: sample_env_def)
  have fB: "filtered_marks_df (tab2 ?sB) =
      [\<lparr>Student = ''B'', Subject = ''Math'', Marks = 90\<rparr>,
       \<lparr>Student = ''B'', Subject = ''Art'', Marks = 40\<rparr>]"
    by (simp add: tab2_fields(1) inB apply_filters_eq_filter sample_marks_def
        ALL_STUDENTS_def ALL_SUBJECTS_def)
  have failB: "failing_students (tab2 ?sB) = []"
    by (simp add: tab2_fields(2) fB FAILING_MARK_THRESHOLD_def)
  have avgB: "avg_marks (tab2 ?sB) = [\<lparr>Student = ''B'', Marks_mean = Some 65\<rparr>]"
    by (simp add: tab2_fields(3) fB avg_marks_of_def mean_num_def)
  have mB: "merged_df (tab2 ?sB) =
      [\<lparr>Student = ''B'', Subject = ''Math'', Marks = 90, Attendance_pct_merged = Some 100\<rparr>,
       \<lparr>Student = ''B'', Subject = ''Art'', Marks = 40, Attendance_pct_merged = Some 0\<rparr>]"
    by (simp add: tab2_fields(4,5) fB inB sample_summary merge_left_def key_of_def
        merged_with_def)
  have spB: "special_attention (tab2 ?sB) = []"
    by (simp add: tab2_fields(6) mB FAILING_MARK_THRESHOLD_def)
  have in0: "marks_df sample_env = sample_marks" "attendance_df sample_env = sample_attendance"
    "selected_students_marks sample_env = [''All Students'']"
    "selected_subjects_marks sample_env = [''All Subjects'']"
    "out sample_env = []" "events_df sample_env = sample_events" "today sample_env = 19800"
    by (simp_all add: sample_env_def)
  have f0: "filtered_marks_df (tab2 sample_env) = sample_marks"
    by (simp add: tab2_fields(1) in0 sample_filtered_marks)
  have fail0: "failing_students (tab2 sample_env) =
      [\<lparr>Student = ''A'', Subject = ''Math'', Marks = 30\<rparr>,
       \<lparr>Student = ''C'', Subject = ''Math'', Marks = 10\<rparr>,
       \<lparr>Student = ''D'', Subject = ''Art'', Marks = 35\<rparr>]"
    by (simp add: tab2_fields(2) f0 sample_marks_def FAILING_MARK_THRESHOLD_def)
  have sp0: "special_attention (tab2 sample_env) =
      [\<lparr>Student = ''A'', Subject = ''Math'', Marks = 30, Attendance_pct_merged = Some 50\<rparr>]"
    by (simp add: tab2_fields(4,5,6) f0 in0 sample_merged FAILING_MARK_THRESHOLD_def
        LOW_ATTENDANCE_THRESHOLD_def)
  then have ne0: "special_attention (tab2 sample_env) \<noteq> []" by simp
  have inT: "events_df ?sT = sample_events" "today ?sT = 19790" "out ?sT = []"
    by (simp_all add: sample_env_def)
  have upT: "upcoming (tab3 ?sT) =
        [\<lparr>Event = ''Old'', Event_Date = 19799 * ns_per_day, Event_Subject = ''Art''\<rparr>,
         \<lparr>Event = ''Lab'', Event_Date = 19800 * ns_per_day, Event_Subject = ''Math''\<rparr>,
         \<lparr>Event = ''Quiz'', Event_Date = 19803 * ns_per_day + 32400000000000,
          Event_Subject = ''Math''\<rparr>,
         \<lparr>Event = ''Essay'', Event_Date = 19807 * ns_per_day + 82800000000000,
          Event_Subject = ''Art''\<rparr>,
         \<lparr>Event = ''Final'', Event_Date = 19810 * ns_per_day, Event_Subject = ''Math''\<rparr>]"
    by (simp add: tab3_fields(1) inT sort_values_Date_def sample_events_def dt_date_def
        ns_per_day_def)
  have nT: "near_deadline (tab3 ?sT) = []"
    by (simp add: tab3_fields(2) upT inT dt_date_def ns_per_day_def)
  have up0: "upcoming (tab3 sample_env) =
      sort_values_Date (filter (\<lambda>e. 19800 \<le> dt_date (Event_Date e)) sample_events)"
    by (simp add: tab3_fields(1) in0)
  have n0: "near_deadline (tab3 sample_env) \<noteq> []"
    unfolding tab3_fields(2) up0 sample_upcoming
    by (simp add: in0 dt_date_def ns_per_day_def)
  from empty_state_asymmetry [of ?sB] spB
  have "out (tab2 ?sB) = out ?sB @
        marks_overview (filtered_marks_df (tab2 ?sB)) (failing_students (tab2 ?sB))
          (avg_marks (tab2 ?sB)) @
        [St_success (check_mark @ '' No students currently flagged for special attention.'')]"
    by blast
  then have oB: "out (tab2 ?sB) =
     [St_header (memo @ '' Marks Overview''),
      St_subheader ''Marks Data'',
      St_dataframe (Marks_tbl
        [\<lparr>Student = ''B'', Subject = ''Math'', Marks = 90\<rparr>,
         \<lparr>Student = ''B'', Subject = ''Art'', Marks = 40\<rparr>]),
      St_subheader ''Average Marks per Student'',
      St_plotly_chart (Px_bar_marks [\<lparr>Student = ''B'', Marks_mean = Some 65\<rparr>]),
      St_subheader ''Subject-wise Marks Distribution'',
      St_plotly_chart (Px_box
        [\<lparr>Student = ''B'', Subject = ''Math'', Marks = 90\<rparr>,
         \<lparr>Student = ''B'', Subject = ''Art'', Marks = 40\<rparr>]),
      St_subheader (police_light @ '' Students Needing Special Attention''),
      St_success (check_mark @ '' No students currently flagged for special attention.'')]"
    by (simp add: inB fB failB avgB marks_overview_def failing_section_def)
  from empty_state_asymmetry [of sample_env] ne0
  have "out (tab2 sample_env) = out sample_env @
        marks_overview (filtered_marks_df (tab2 sample_env)) (failing_students (tab2 sample_env))
          (avg_marks (tab2 sample_env)) @
        [St_warning (warning_sign @
           '' These students need special attention (low marks & low attendance):''),
         St_dataframe (Merged_tbl (special_attention (tab2 sample_env))),
         St_plotly_chart (Px_scatter (merged_df (tab2 sample_env)))]"
    by blast
  then have o0: "drop 10 (out (tab2 sample_env)) =
     [St_warning (warning_sign @
        '' These students need special attention (low marks & low attendance):''),
      St_dataframe (Merged_tbl
        [\<lparr>Student = ''A'', Subject = ''Math'', Marks = 30, Attendance_pct_merged = Some 50\<rparr>]),
      St_plotly_chart (Px_scatter (merged_df (tab2 sample_env)))]"
    by (simp add: in0 fail0 sp0 marks_overview_def failing_section_def)
  from empty_state_asymmetry [of ?sT] nT
  have "out (tab3 ?sT) = out ?sT @
        [St_header (calendar @ '' Upcoming Exams & Assignments''),
         St_dataframe (Events_tbl (upcoming (tab3 ?sT)))]"
    by blast
  then have oT: "out (tab3 ?sT) =
        [St_header (calendar @ '' Upcoming Exams & Assignments''),
         St_dataframe (Events_tbl
        [\<lparr>Event = ''Old'', Event_Date = 19799 * ns_per_day, Event_Subject = ''Art''\<rparr>,
         \<lparr>Event = ''Lab'', Event_Date = 19800 * ns_per_day, Event_Subject = ''Math''\<rparr>,
         \<lparr>Event = ''Quiz'', Event_Date = 19803 * ns_per_day + 32400000000000,
          Event_Subject = ''Math''\<rparr>,
         \<lparr>Event = ''Essay'', Event_Date = 19807 * ns_per_day + 82800000000000,
          Event_Subject = ''Art''\<rparr>,
         \<lparr>Event = ''Final'', Event_Date = 19810 * ns_per_day, Event_Subject = ''Math''\<rparr>])]"
    by (simp only: inT upT append_Nil)
  from empty_state_asymmetry [of sample_env] n0
  have "out (tab3 sample_env) = out sample_env @
        [St_header (calendar @ '' Upcoming Exams & Assignments''),
         St_dataframe (Events_tbl (upcoming (tab3 sample_env))),
         St_warning (warning_sign @ '' Deadlines within 7 days:''),
         St_dataframe (Events_tbl (near_deadline (tab3 sample_env)))]"
    by blast
  then have o3: "drop 2 (out (tab3 sample_env)) =
     [St_warning (warning_sign @ '' Deadlines within 7 days:''),
      St_dataframe (Events_tbl (near_deadline (tab3 sample_env)))]"
    by (simp add: in0)
  from spB oB ne0 o0 nT oT n0 o3 show ?thesis by - (intro conjI, assumption+)
qed

text \<open>
  C9. A selection that leaves no rows is not a failure. With no filtered attendance rows the
  summary and the low-attendance list are empty and the present/absent pair of the pie chart
  is a pair of NaN: the mean of an empty column is NaN, not an exception. With no filtered
  mark rows the failing list, the averages, the merged table and the special-attention table
  are empty, and the all-clear message is shown. The grouped aggregations never take the
  mean of an empty group: every row of the attendance summary and of the average marks
  comes from a group with at least one record, so its value is a number.
\<close>

theorem empty_selection_tolerated:
  "(filtered_df (tab1 s) = [] \<longrightarrow>
      attendance_summary (tab1 s) = [] \<and> low_attendance (tab1 s) = [] \<and>
      present_ratio (tab1 s) = None \<and>
      pie_data (tab1 s) = [(''Present'', None), (''Absent'', None)] \<and>
      out (tab1 s) = out s @
        [St_header (blue_book @ '' Attendance Overview''),
         St_subheader ''Filtered Attendance Data'',
         St_dataframe (Attendance_tbl []),
         St_subheader ''Attendance % by Student and Subject'',
         St_plotly_chart (Px_bar_attendance []),
         St_subheader ''Overall Attendance Distribution'',
         St_plotly_chart (Px_pie [(''Present'', None), (''Absent'', None)])]) \<and>
   (filtered_marks_df (tab2 s) = [] \<longrightarrow>
      failing_students (tab2 s) = [] \<and> avg_marks (tab2 s) = [] \<and>
      merged_df (tab2 s) = [] \<and> special_attention (tab2 s) = [] \<and>
      out (tab2 s) = out s @
        [St_header (memo @ '' Marks Overview''),
         St_subheader ''Marks Data'',
         St_dataframe (Marks_tbl []),
         St_subheader ''Average Marks per Student'',
         St_plotly_chart (Px_bar_marks []),
         St_subheader ''Subject-wise Marks Distribution'',
         St_plotly_chart (Px_box []),
         St_subheader (police_light @ '' Students Needing Special Attention''),
         St_success (check_mark @ '' No students currently flagged for special attention.'')]) \<and>
   (\<forall>r \<in> set (attendance_summary_of df).
      filter (\<lambda>a. Student a = Student r \<and> Subject a = Subject r) df \<noteq> [] \<and>
      Attendance_pct r \<noteq> None) \<and>
   (\<forall>r \<in> set (avg_marks_of mf).
      filter (\<lambda>a. Student a = Student r) mf \<noteq> [] \<and> Marks_mean r \<noteq> None)"
proof (intro conjI impI ballI)
  assume e: "filtered_df (tab1 s) = []"
  show a: "attendance_summary (tab1 s) = []"
    by (simp add: tab1_fields(2) e empty_tables)
  show l: "low_attendance (tab1 s) = []"
    by (simp add: tab1_fields(5) a)
  show p: "present_ratio (tab1 s) = None"
    by (simp add: tab1_fields(3) e present_pct_Nil)
  show d: "pie_data (tab1 s) = [(''Present'', None), (''Absent'', None)]"
    by (simp add: tab1_fields(4) p nan_rsub_def)
  show "out (tab1 s) = out s @
        [St_header (blue_book @ '' Attendance Overview''),
         St_subheader ''Filtered Attendance Data'',
         St_dataframe (Attendance_tbl []),
         St_subheader ''Attendance % by Student and Subject'',
         St_plotly_chart (Px_bar_attendance []),
         St_subheader ''Overall Attendance Distribution'',
         St_plotly_chart (Px_pie [(''Present'', None), (''Absent'', None)])]"
    by (simp add: tab1_fields(6) e a l d low_attendance_section_def)
next
  assume e: "filtered_marks_df (tab2 s) = []"
  show f: "failing_students (tab2 s) = []"
    by (simp add: tab2_fields(2) e)
  show a: "avg_marks (tab2 s) = []"
    by (simp add: tab2_fields(3) e empty_tables)
  show m: "merged_df (tab2 s) = []"
    by (simp add: tab2_fields(5) e empty_tables)
  show sp: "special_attention (tab2 s) = []"
    by (simp add: tab2_fields(6) m)
  show "out (tab2 s) = out s @
        [St_header (memo @ '' Marks Overview''),
         St_subheader ''Marks Data'',
         St_dataframe (Marks_tbl []),
         St_subheader ''Average Marks per Student'',
         St_plotly_chart (Px_bar_marks []),
         St_subheader ''Subject-wise Marks Distribution'',
         St_plotly_chart (Px_box []),
         St_subheader (police_light @ '' Students Needing Special Attention''),
         St_success (check_mark @ '' No students currently flagged for special attention.'')]"
    by (simp add: tab2_fields(7) e f a m sp marks_overview_def failing_section_def
        special_attention_section_def)
next
  fix r assume "r \<in> set (attendance_summary_of df)"
  then show "filter (\<lambda>a. Student a = Student r \<and> Subject a = Subject r) df \<noteq> []"
    and "Attendance_pct r \<noteq> None"
    by (rule summary_row_defined)+
next
  fix r assume "r \<in> set (avg_marks_of mf)"
  then show "filter (\<lambda>a. Student a = Student r) mf \<noteq> []" and "Marks_mean r \<noteq> None"
    by (rule avg_row_mean)+
qed

theorem empty_selection_tolerated_witness:
  "filtered_df (tab1 (sample_env\<lparr>selected_students_attendance := []\<rparr>)) = [] \<and>
   present_ratio (tab1 (sample_env\<lparr>selected_students_attendance := []\<rparr>)) = None \<and>
   pie_data (tab1 (sample_env\<lparr>selected_students_attendance := []\<rparr>)) =
     [(''Present'', None), (''Absent'', None)] \<and>
   low_attendance (tab1 (sample_env\<lparr>selected_students_attendance := []\<rparr>)) = [] \<and>
   filtered_marks_df (tab2 (sample_env\<lparr>selected_students_marks := [''D''],
                                      selected_subjects_marks := [''Math'']\<rparr>)) = [] \<and>
   avg_marks (tab2 (sample_env\<lparr>selected_students_marks := [''D''],
                              selected_subjects_marks := [''Math'']\<rparr>)) = [] \<and>
   special_attention (tab2 (sample_env\<lparr>selected_students_marks := [''D''],
                                      selected_subjects_marks := [''Math'']\<rparr>)) = [] \<and>
   \<lparr>Student = ''B'', Subject = ''Art'', Attendance_pct = Some 0\<rparr>
     \<in> set (attendance_summary_of sample_attendance) \<and>
   filter (\<lambda>a. Student a = ''B'' \<and> Subject a = ''Art'') sample_attendance \<noteq> [] \<and>
   \<lparr>Student = ''C'', Marks_mean = Some 10\<rparr> \<in> set (avg_marks_of sample_marks) \<and>
   filter (\<lambda>a. Student a = ''C'') sample_marks \<noteq> []"
proof -
  let ?sA = "sample_env\<lparr>selected_students_attendance := []\<rparr>"
  let ?sM = "sample_env\<lparr>selected_students_marks := [''D''],
                        selected_subjects_marks := [''Math'']\<rparr>"
  let ?r = "\<lparr>Student = ''B'', Subject = ''Art'', Attendance_pct = Some 0\<rparr>"
  let ?v = "\<lparr>Student = ''C'', Marks_mean = Some 10\<rparr>"
  note t = empty_selection_tolerated [of _ sample_attendance sample_marks]
  have fA: "filtered_df (tab1 ?sA) = []"
    by (simp add: tab1_fields(1) sample_env_def apply_filters_eq_filter ALL_STUDENTS_def)
  have fM: "filtered_marks_df (tab2 ?sM) = []"
    by (simp add: tab2_fields(1) sample_env_def apply_filters_eq_filter sample_marks_def
        ALL_STUDENTS_def ALL_SUBJECTS_def)
  have r: "?r \<in> set (attendance_summary_of sample_attendance)"
    by (simp add: sample_summary)
  have v: "?v \<in> set (avg_marks_of sample_marks)"
    by (simp add: avg_marks_of_def sample_marks_def mean_num_def)
  from t [of ?sA] fA have a: "present_ratio (tab1 ?sA) = None"
    "pie_data (tab1 ?sA) = [(''Present'', None), (''Absent'', None)]"
    "low_attendance (tab1 ?sA) = []"
    by blast+
  from t [of ?sM] fM have m: "avg_marks (tab2 ?sM) = []" "special_attention (tab2 ?sM) = []"
    by blast+
  from t [of sample_env] r
  have g: "filter (\<lambda>a. Student a = Student ?r \<and> Subject a = Subject ?r) sample_attendance \<noteq> []"
    by blast
  from t [of sample_env] v
  have h: "filter (\<lambda>a. Student a = Student ?v) sample_marks \<noteq> []"
    by blast
  from g have g': "filter (\<lambda>a. Student a = ''B'' \<and> Subject a = ''Art'') sample_attendance \<noteq> []"
    by simp
  from h have h': "filter (\<lambda>a. Student a = ''C'') sample_marks \<noteq> []"
    by simp
  from fA a fM m r g' v h' show ?thesis by - (intro conjI, assumption+)
qed

end
